theory Spec2Isabelle
  imports Complex_Main
begin

section \<open>Python values and exceptions\<close>

text \<open>
  What \<^verbatim>\<open>int(x)\<close> can do: return an integer, raise \<^verbatim>\<open>TypeError\<close>, \<^verbatim>\<open>ValueError\<close> or
  \<^verbatim>\<open>OverflowError\<close>, or raise an exception of another class (from a conversion method
  that the class of \<open>x\<close> defines).
\<close>

datatype conv = Converted int | TypeError | ValueError | Overflow | OtherError string

text \<open>
  The values that can reach \<^verbatim>\<open>get_log_level\<close>. The annotation is \<^verbatim>\<open>str | int\<close>, but
  Python does not enforce it, and the function has a branch for everything else.
  \<^item> A \<^verbatim>\<open>str\<close> is a \<open>string\<close>: each \<open>char\<close> is read as the code point of the same
    number, so the strings of the model are the Python strings over code points below
    256. An instance of a subclass of \<^verbatim>\<open>str\<close> that overrides no method is the string.
  \<^item> A \<^verbatim>\<open>float\<close> is finite (a rational: every finite double is one), a NaN or an
    infinity; a \<^verbatim>\<open>complex\<close> is two floats.
  \<^item> \<^verbatim>\<open>bytes\<close> (and \<^verbatim>\<open>bytearray\<close>) are a list of bytes.
  \<^item> A list stands for the containers (list, tuple, dict, set).
  \<^item> \<open>PIntSub n c\<close> is an instance of a proper subclass of \<^verbatim>\<open>int\<close> other than
    \<^verbatim>\<open>bool\<close>: \<open>n\<close> is its integer value, \<open>c\<close> is what \<^verbatim>\<open>int\<close> does on it (the
    class may define \<^verbatim>\<open>__int__\<close>; without that, \<open>c = Converted n\<close>).
  \<^item> \<open>PObject c\<close> is an instance of any class that is no subclass of \<^verbatim>\<open>int\<close> or
    \<^verbatim>\<open>str\<close> and none of the above: \<open>c\<close> is what \<^verbatim>\<open>int\<close> does on it, through
    \<^verbatim>\<open>__int__\<close>, \<^verbatim>\<open>__index__\<close> or \<^verbatim>\<open>__trunc__\<close>, and \<open>TypeError\<close> when the class has none
    of them.
\<close>

datatype pyfloat = Finite rat | NaN | Infinity bool

datatype pyval =
    PInt int
  | PBool bool
  | PStr string
  | PFloat pyfloat
  | PNone
  | PBytes string
  | PComplex pyfloat pyfloat
  | PList "pyval list"
  | PIntSub int conv
  | PObject conv

datatype exn =
    SystemExit string
  | AttributeError string
  | OverflowError
  | UnboundLocalError
  | OtherException string

section \<open>The built-ins \<^verbatim>\<open>str.lower\<close> and \<^verbatim>\<open>int\<close>\<close>

text \<open>
  \<^verbatim>\<open>str.lower\<close> below code point 256: the upper-case letters are A-Z (65-90) and the
  Latin-1 letters 192-214 and 216-222; each maps to the code point 32 above it.
\<close>

definition lower_char :: "char \<Rightarrow> char" where
  "lower_char c =
     (let n = (of_char c :: nat) in
      if (65 \<le> n \<and> n \<le> 90) \<or> (192 \<le> n \<and> n \<le> 214) \<or> (216 \<le> n \<and> n \<le> 222)
      then char_of (n + 32) else c)"

definition lower :: "string \<Rightarrow> string" where
  "lower s = map lower_char s"

text \<open>
  \<^verbatim>\<open>int(s)\<close> for a string, base 10: surrounding white space is skipped (the ASCII
  white space 9-13 and 32, and the code points 133 and 160, which \<^verbatim>\<open>int\<close> turns into
  spaces first), then an optional sign, then decimal digits, where single underscores
  may stand between two digits. More than \<open>max_str_digits\<close> digits are refused
  (\<^verbatim>\<open>sys.int_info.default_max_str_digits\<close>). Every failure is a \<^verbatim>\<open>ValueError\<close>.
\<close>

definition is_space :: "char \<Rightarrow> bool" where
  "is_space c =
     (let n = (of_char c :: nat) in (9 \<le> n \<and> n \<le> 13) \<or> n = 32 \<or> n = 133 \<or> n = 160)"

definition digit_val :: "char \<Rightarrow> nat option" where
  "digit_val c =
     (let n = (of_char c :: nat) in if 48 \<le> n \<and> n \<le> 57 then Some (n - 48) else None)"

definition strip :: "string \<Rightarrow> string" where
  "strip s = rev (dropWhile is_space (rev (dropWhile is_space s)))"

definition max_str_digits :: nat where
  "max_str_digits = 4300"

text \<open>
  \<open>digits_acc acc cnt cs\<close> reads what follows a digit: \<open>acc\<close> is the value read so far
  and \<open>cnt\<close> the number of digits. An underscore must be followed by a digit.
\<close>

fun digits_acc :: "nat \<Rightarrow> nat \<Rightarrow> string \<Rightarrow> (nat \<times> nat) option" where
  "digits_acc acc cnt [] = Some (acc, cnt)"
| "digits_acc acc cnt [c] =
     (case digit_val c of None \<Rightarrow> None | Some v \<Rightarrow> Some (10 * acc + v, Suc cnt))"
| "digits_acc acc cnt (c # d # ds) =
     (if c = CHR ''_'' then
        (case digit_val d of
           None \<Rightarrow> None
         | Some v \<Rightarrow> digits_acc (10 * acc + v) (Suc cnt) ds)
      else
        (case digit_val c of
           None \<Rightarrow> None
         | Some v \<Rightarrow> digits_acc (10 * acc + v) (Suc cnt) (d # ds)))"

definition parse_digits :: "string \<Rightarrow> (nat \<times> nat) option" where
  "parse_digits s =
     (case s of
        [] \<Rightarrow> None
      | c # cs \<Rightarrow> (case digit_val c of None \<Rightarrow> None | Some v \<Rightarrow> digits_acc v 1 cs))"

definition int_of_str :: "string \<Rightarrow> int option" where
  "int_of_str s =
     (let t = strip s;
          neg = (t \<noteq> [] \<and> hd t = CHR ''-'');
          body = (if t \<noteq> [] \<and> (hd t = CHR ''-'' \<or> hd t = CHR ''+'') then tl t else t)
      in case parse_digits body of
           None \<Rightarrow> None
         | Some (v, cnt) \<Rightarrow>
             if max_str_digits < cnt then None
             else Some (if neg then - int v else int v))"

text \<open>
  \<^verbatim>\<open>int(b)\<close> for bytes reads the same literals, but only the ASCII white space is
  skipped: the bytes 133 and 160 are no white space.
\<close>

definition is_space_ascii :: "char \<Rightarrow> bool" where
  "is_space_ascii c = (let n = (of_char c :: nat) in (9 \<le> n \<and> n \<le> 13) \<or> n = 32)"

definition strip_ascii :: "string \<Rightarrow> string" where
  "strip_ascii s = rev (dropWhile is_space_ascii (rev (dropWhile is_space_ascii s)))"

definition int_of_bytes :: "string \<Rightarrow> int option" where
  "int_of_bytes s =
     (let t = strip_ascii s;
          neg = (t \<noteq> [] \<and> hd t = CHR ''-'');
          body = (if t \<noteq> [] \<and> (hd t = CHR ''-'' \<or> hd t = CHR ''+'') then tl t else t)
      in case parse_digits body of
           None \<Rightarrow> None
         | Some (v, cnt) \<Rightarrow>
             if max_str_digits < cnt then None
             else Some (if neg then - int v else int v))"

text \<open>
  \<^verbatim>\<open>int(x)\<close> for any value: an \<^verbatim>\<open>int\<close> is returned, a \<^verbatim>\<open>bool\<close> becomes 0 or 1, a
  string and bytes are parsed, a finite float is truncated towards zero, a NaN raises
  \<^verbatim>\<open>ValueError\<close>, an infinity raises \<^verbatim>\<open>OverflowError\<close>; \<^verbatim>\<open>None\<close>, a complex number and
  a container raise \<^verbatim>\<open>TypeError\<close>; an instance of another class does what its class
  says.
\<close>

definition trunc :: "rat \<Rightarrow> int" where
  "trunc q = (if 0 \<le> q then \<lfloor>q\<rfloor> else \<lceil>q\<rceil>)"

fun py_int :: "pyval \<Rightarrow> conv" where
  "py_int (PInt n) = Converted n"
| "py_int (PBool b) = Converted (if b then 1 else 0)"
| "py_int (PStr s) = (case int_of_str s of None \<Rightarrow> ValueError | Some n \<Rightarrow> Converted n)"
| "py_int (PFloat (Finite q)) = Converted (trunc q)"
| "py_int (PFloat NaN) = ValueError"
| "py_int (PFloat (Infinity b)) = Overflow"
| "py_int PNone = TypeError"
| "py_int (PBytes b) = (case int_of_bytes b of None \<Rightarrow> ValueError | Some n \<Rightarrow> Converted n)"
| "py_int (PComplex re im) = TypeError"
| "py_int (PList xs) = TypeError"
| "py_int (PIntSub n c) = c"
| "py_int (PObject c) = c"

text \<open>
  \<^verbatim>\<open>isinstance(x, int)\<close> and \<^verbatim>\<open>isinstance(x, str)\<close>: \<open>as_int x\<close> is the integer value of
  \<open>x\<close> when \<open>x\<close> is an instance of \<^verbatim>\<open>int\<close> (a \<^verbatim>\<open>bool\<close> is one), \<open>as_str x\<close> its
  characters when it is an instance of \<^verbatim>\<open>str\<close>.
\<close>

fun as_int :: "pyval \<Rightarrow> int option" where
  "as_int (PInt n) = Some n"
| "as_int (PBool b) = Some (if b then 1 else 0)"
| "as_int (PIntSub n c) = Some n"
| "as_int v = None"

fun as_str :: "pyval \<Rightarrow> string option" where
  "as_str (PStr s) = Some s"
| "as_str v = None"

section \<open>\<^verbatim>\<open>get_log_level\<close>\<close>

definition level_names :: "string list" where
  "level_names =
     [''spam'', ''debug'', ''info'', ''warning'', ''success'', ''error'', ''critical'']"

definition invalid_string_msg :: "string \<Rightarrow> string" where
  "invalid_string_msg s = ''ERROR: '' @ [CHR 0x27] @ s @ [CHR 0x27] @ '' is not a valid log level string.''"

definition generic_msg :: string where
  "generic_msg = ''ERROR: --log-level should be an integer or valid log level string.''"

text \<open>
  The \<^verbatim>\<open>try\<close> block rebinds \<^verbatim>\<open>levelInput\<close> to the integer when \<^verbatim>\<open>int\<close> succeeds and
  leaves it alone on \<^verbatim>\<open>TypeError\<close> and \<^verbatim>\<open>ValueError\<close>; no other exception is caught.
\<close>

definition after_try :: "pyval \<Rightarrow> exn + pyval" where
  "after_try levelInput =
     (case py_int levelInput of
        Converted n \<Rightarrow> Inr (PInt n)
      | TypeError \<Rightarrow> Inr levelInput
      | ValueError \<Rightarrow> Inr levelInput
      | Overflow \<Rightarrow> Inl OverflowError
      | OtherError name \<Rightarrow> Inl (OtherException name))"

definition name_rank :: "string \<Rightarrow> exn + int" where
  "name_rank l =
     (if l = ''spam'' then Inr 5
      else if l = ''debug'' then Inr 10
      else if l = ''info'' then Inr 20
      else if l = ''warning'' then Inr 30
      else if l = ''success'' then Inr 35
      else if l = ''error'' then Inr 40
      else if l = ''critical'' then Inr 50
      else Inl UnboundLocalError)"

text \<open>
  The chain after the \<^verbatim>\<open>try\<close> block: \<^verbatim>\<open>isinstance(levelInput, int)\<close> first, then
  \<^verbatim>\<open>isinstance(levelInput, str)\<close>, then the \<^verbatim>\<open>else\<close>. What is returned for an instance
  of \<^verbatim>\<open>int\<close> is the instance; the model gives its integer value.
\<close>

definition dispatch :: "pyval \<Rightarrow> exn + int" where
  "dispatch levelInput =
     (case as_int levelInput of
        Some n \<Rightarrow> Inr n
      | None \<Rightarrow>
          (case as_str levelInput of
             Some s \<Rightarrow>
               if lower s \<in> set level_names then name_rank (lower s)
               else Inl (SystemExit (invalid_string_msg s))
           | None \<Rightarrow> Inl (SystemExit generic_msg)))"

definition get_log_level :: "pyval \<Rightarrow> exn + int" where
  "get_log_level levelInput =
     (case after_try levelInput of
        Inl e \<Rightarrow> Inl e
      | Inr v \<Rightarrow> dispatch v)"


section \<open>The state that \<^verbatim>\<open>logging_setup\<close> changes\<close>

text \<open>
  \<^verbatim>\<open>logging_setup\<close> reads and writes the attributes of the module \<^verbatim>\<open>logging\<close>, the
  attributes of the class returned by \<^verbatim>\<open>logging.getLoggerClass()\<close>, the two level
  tables behind \<^verbatim>\<open>logging.addLevelName\<close>, the handlers and the level of the root
  logger, and the files that exist. An attribute holds a level number, one of the two
  closures that \<^verbatim>\<open>addLoggingLevel\<close> builds (each remembers its \<^verbatim>\<open>levelNum\<close>), or
  anything else.
\<close>

datatype attr_val = LevelNum int | LogForLevel int | LogToRoot int | OtherAttr

datatype stream = Stderr | Stdout | FileStream string

type_synonym field_styles = "(string \<times> string \<times> bool) list"

datatype formatter =
    Formatter (fmt_of: string)
  | ColoredFormatter (fmt_of: string) field_styles

record handler =
  h_stream :: stream
  h_formatter :: "formatter option"
  h_level :: int

record logging_state =
  module_attrs :: "string \<rightharpoonup> attr_val"
  logger_class_attrs :: "string \<rightharpoonup> attr_val"
  levelToName :: "int \<rightharpoonup> string"
  nameToLevel :: "string \<rightharpoonup> int"
  root_handlers :: "handler list"
  root_level :: int
  files :: "string set"

text \<open>The calls into \<^verbatim>\<open>logging\<close>, as state transformers.\<close>

definition hasattr_module :: "logging_state \<Rightarrow> string \<Rightarrow> bool" where
  "hasattr_module st name = (module_attrs st name \<noteq> None)"

definition hasattr_class :: "logging_state \<Rightarrow> string \<Rightarrow> bool" where
  "hasattr_class st name = (logger_class_attrs st name \<noteq> None)"

definition addLevelName :: "int \<Rightarrow> string \<Rightarrow> logging_state \<Rightarrow> logging_state" where
  "addLevelName level levelName st =
     st\<lparr>levelToName := (levelToName st)(level \<mapsto> levelName),
        nameToLevel := (nameToLevel st)(levelName \<mapsto> level)\<rparr>"

definition setattr_module :: "string \<Rightarrow> attr_val \<Rightarrow> logging_state \<Rightarrow> logging_state" where
  "setattr_module name v st = st\<lparr>module_attrs := (module_attrs st)(name \<mapsto> v)\<rparr>"

definition setattr_class :: "string \<Rightarrow> attr_val \<Rightarrow> logging_state \<Rightarrow> logging_state" where
  "setattr_class name v st = st\<lparr>logger_class_attrs := (logger_class_attrs st)(name \<mapsto> v)\<rparr>"

definition addHandler :: "handler \<Rightarrow> logging_state \<Rightarrow> logging_state" where
  "addHandler h st = st\<lparr>root_handlers := root_handlers st @ [h]\<rparr>"

definition setLevel :: "int \<Rightarrow> logging_state \<Rightarrow> logging_state" where
  "setLevel level st = st\<lparr>root_level := level\<rparr>"

text \<open>
  \<^verbatim>\<open>logging.FileHandler(name)\<close> opens the file for appending when it is built, which
  creates it; the handler has no formatter yet and level 0. \<^verbatim>\<open>logging.StreamHandler()\<close>
  writes to the standard error stream.
\<close>

definition open_file :: "string \<Rightarrow> logging_state \<Rightarrow> logging_state" where
  "open_file name st = st\<lparr>files := insert name (files st)\<rparr>"

definition FileHandler :: "string \<Rightarrow> handler" where
  "FileHandler name = \<lparr>h_stream = FileStream name, h_formatter = None, h_level = 0\<rparr>"

definition StreamHandler :: handler where
  "StreamHandler = \<lparr>h_stream = Stderr, h_formatter = None, h_level = 0\<rparr>"

definition setFormatter :: "formatter \<Rightarrow> handler \<Rightarrow> handler" where
  "setFormatter f h = h\<lparr>h_formatter := Some f\<rparr>"

section \<open>\<^verbatim>\<open>addLoggingLevel\<close>\<close>

definition method_name :: "string \<Rightarrow> string option \<Rightarrow> string" where
  "method_name levelName methodName =
     (case methodName of
        None \<Rightarrow> lower levelName
      | Some m \<Rightarrow> if m = [] then lower levelName else m)"

definition addLoggingLevel ::
  "string \<Rightarrow> int \<Rightarrow> string option \<Rightarrow> logging_state \<Rightarrow> (exn + unit) \<times> logging_state" where
  "addLoggingLevel levelName levelNum methodName st =
     (let m = method_name levelName methodName in
      if hasattr_module st levelName then
        (Inl (AttributeError (levelName @ '' already defined in logging module'')), st)
      else if hasattr_module st m then
        (Inl (AttributeError (m @ '' already defined in logging module'')), st)
      else if hasattr_class st m then
        (Inl (AttributeError (m @ '' already defined in logger class'')), st)
      else
        (Inr (),
         setattr_module m (LogToRoot levelNum)
           (setattr_class m (LogForLevel levelNum)
              (setattr_module levelName (LevelNum levelNum)
                 (addLevelName levelNum levelName st)))))"

section \<open>\<^verbatim>\<open>logging_setup\<close>\<close>

text \<open>
  What the function takes from its environment: the date that
  \<^verbatim>\<open>datetime.datetime.now()\<close> returns, and whether the terminal takes colours.
\<close>

record date =
  year :: nat
  month :: nat
  day :: nat

record env =
  now :: date
  use_colors :: bool

text \<open>
  \<^verbatim>\<open>strftime("%Y%m%d")\<close>: the year in four digits, the month and the day in two, each
  padded with zeros on the left.
\<close>

fun dec :: "nat \<Rightarrow> string" where
  "dec n =
     (if n < 10 then [char_of (48 + n)]
      else dec (n div 10) @ [char_of (48 + n mod 10)])"

declare dec.simps [simp del]

definition zpad :: "nat \<Rightarrow> string \<Rightarrow> string" where
  "zpad w s = replicate (w - length s) (CHR ''0'') @ s"

definition strftime_Ymd :: "date \<Rightarrow> string" where
  "strftime_Ymd d = zpad 4 (dec (year d)) @ zpad 2 (dec (month d)) @ zpad 2 (dec (day d))"

definition log_file_name :: "date \<Rightarrow> string" where
  "log_file_name d = strftime_Ymd d @ ''.log''"

definition log_format :: string where
  "log_format = ''%(asctime)s :: %(levelname)-8s :: %(funcName)-17s - %(message)s''"

definition setup_field_styles :: field_styles where
  "setup_field_styles =
     [(''asctime'', ''green'', False), (''levelname'', ''black'', True),
      (''funcName'', ''blue'', False), (''thread'', ''black'', False)]"

text \<open>
  Modelled from the spec: \<^verbatim>\<open>coloredlogs.install\<close> is a library call whose code is not
  part of the sources. The spec says of it that it installs coloured rendering on top
  of the same format and that the console output has that format. The model is the
  library's \<^verbatim>\<open>install(level, logger, fmt, field_styles)\<close> on the root logger: the
  first handler of the logger that writes to the standard output or error stream, if
  there is one, is removed; a handler on the standard error stream is built, with the
  level \<^verbatim>\<open>level\<close> and a formatter made from \<^verbatim>\<open>fmt\<close> (coloured when the terminal takes
  colours); the level of the logger is lowered to \<^verbatim>\<open>level\<close> when it is higher; the
  handler is attached.
\<close>

definition is_std_stream_handler :: "handler \<Rightarrow> bool" where
  "is_std_stream_handler h = (h_stream h = Stderr \<or> h_stream h = Stdout)"

fun remove_first :: "('a \<Rightarrow> bool) \<Rightarrow> 'a list \<Rightarrow> 'a list" where
  "remove_first P [] = []"
| "remove_first P (x # xs) = (if P x then xs else x # remove_first P xs)"

definition coloredlogs_install ::
  "bool \<Rightarrow> int \<Rightarrow> string \<Rightarrow> field_styles \<Rightarrow> logging_state \<Rightarrow> logging_state" where
  "coloredlogs_install colors level fmt styles st =
     (let kept = remove_first is_std_stream_handler (root_handlers st);
          f = (if colors then ColoredFormatter fmt styles else Formatter fmt);
          h = \<lparr>h_stream = Stderr, h_formatter = Some f, h_level = level\<rparr>;
          lvl = (if level < root_level st then level else root_level st)
      in st\<lparr>root_handlers := kept @ [h], root_level := lvl\<rparr>)"

text \<open>
  The body of \<^verbatim>\<open>logging_setup\<close>, statement by statement. \<^verbatim>\<open>stream_handler\<close> is built
  and formatted but never passed to \<^verbatim>\<open>addHandler\<close>; \<^verbatim>\<open>logToConsole\<close> and \<^verbatim>\<open>logPath\<close>
  are never read. An \<^verbatim>\<open>AttributeError\<close> of \<^verbatim>\<open>addLoggingLevel\<close> is not caught: it ends
  the function, and the state is what the statements before it have made of it.
\<close>

definition logging_setup ::
  "env \<Rightarrow> int \<Rightarrow> bool \<Rightarrow> bool \<Rightarrow> string \<Rightarrow> logging_state
     \<Rightarrow> (exn + unit) \<times> logging_state" where
  "logging_setup e logLevel logToConsole logToFile logPath st0 =
     (let st1 = (if logToFile then open_file (log_file_name (now e)) st0 else st0);
          file_handler = FileHandler (log_file_name (now e));
          stream_handler = StreamHandler;
          formatter = Formatter log_format;
          file_handler = setFormatter formatter file_handler;
          stream_handler = setFormatter formatter stream_handler;
          st2 = (if logToFile then addHandler file_handler st1 else st1)
      in case addLoggingLevel ''SPAM'' 5 None st2 of
           (Inl err, st3) \<Rightarrow> (Inl err, st3)
         | (Inr u, st3) \<Rightarrow>
             (case addLoggingLevel ''SUCCESS'' 35 None st3 of
                (Inl err, st4) \<Rightarrow> (Inl err, st4)
              | (Inr u, st4) \<Rightarrow>
                  (let st5 = setLevel logLevel st4;
                       st6 = coloredlogs_install (use_colors e) (root_level st5)
                               log_format setup_field_styles st5
                   in (Inr (), st6))))"

text \<open>
  A freshly imported \<^verbatim>\<open>logging\<close> module, for running the functions: the level
  constants and the logging functions of the module, the logging methods of
  \<^verbatim>\<open>logging.Logger\<close>, the standard level tables, a root logger at \<^verbatim>\<open>WARNING\<close> with no
  handler, and no file.
\<close>

definition fresh_logging :: logging_state where
  "fresh_logging =
     \<lparr>module_attrs = map_of
        [(''CRITICAL'', LevelNum 50), (''FATAL'', LevelNum 50), (''ERROR'', LevelNum 40),
         (''WARNING'', LevelNum 30), (''WARN'', LevelNum 30), (''INFO'', LevelNum 20),
         (''DEBUG'', LevelNum 10), (''NOTSET'', LevelNum 0),
         (''critical'', OtherAttr), (''fatal'', OtherAttr), (''error'', OtherAttr),
         (''exception'', OtherAttr), (''warning'', OtherAttr), (''warn'', OtherAttr),
         (''info'', OtherAttr), (''debug'', OtherAttr), (''log'', OtherAttr),
         (''getLogger'', OtherAttr), (''addLevelName'', OtherAttr)],
      logger_class_attrs = map_of
        [(''critical'', OtherAttr), (''fatal'', OtherAttr), (''error'', OtherAttr),
         (''exception'', OtherAttr), (''warning'', OtherAttr), (''warn'', OtherAttr),
         (''info'', OtherAttr), (''debug'', OtherAttr), (''log'', OtherAttr),
         (''setLevel'', OtherAttr), (''addHandler'', OtherAttr)],
      levelToName = map_of
        [(50, ''CRITICAL''), (40, ''ERROR''), (30, ''WARNING''), (20, ''INFO''),
         (10, ''DEBUG''), (0, ''NOTSET'')],
      nameToLevel = map_of
        [(''CRITICAL'', 50), (''FATAL'', 50), (''ERROR'', 40), (''WARN'', 30),
         (''WARNING'', 30), (''INFO'', 20), (''DEBUG'', 10), (''NOTSET'', 0)],
      root_handlers = [],
      root_level = 30,
      files = {}\<rparr>"

section \<open>Notions used in the statements\<close>

text \<open>
  A handler is a file handler when it writes to a file; it carries a format when it
  has a formatter that was made from that format string.
\<close>

definition is_file_handler :: "handler \<Rightarrow> bool" where
  "is_file_handler h = (case h_stream h of FileStream name \<Rightarrow> True | _ \<Rightarrow> False)"

definition carries :: "string \<Rightarrow> handler \<Rightarrow> bool" where
  "carries fmt h = (case h_formatter h of None \<Rightarrow> False | Some f \<Rightarrow> fmt_of f = fmt)"

text \<open>
  The decimal digits, and the value of a string of digits read from the left.
\<close>

definition is_digit :: "char \<Rightarrow> bool" where
  "is_digit c = (digit_val c \<noteq> None)"

definition digits_value :: "nat \<Rightarrow> string \<Rightarrow> nat" where
  "digits_value acc ds = foldl (\<lambda>a c. 10 * a + the (digit_val c)) acc ds"

text \<open>
  The state of \<^verbatim>\<open>logging_setup\<close> when it reaches the two calls of
  \<^verbatim>\<open>addLoggingLevel\<close>: the file is open and its handler attached, if asked for.
\<close>

definition before_levels :: "env \<Rightarrow> bool \<Rightarrow> logging_state \<Rightarrow> logging_state" where
  "before_levels e logToFile st =
     (if logToFile then
        addHandler (setFormatter (Formatter log_format) (FileHandler (log_file_name (now e))))
          (open_file (log_file_name (now e)) st)
      else st)"

text \<open>An environment for running the functions: 3 November 2026, a colour terminal.\<close>

definition test_env :: env where
  "test_env = \<lparr>now = \<lparr>year = 2026, month = 11, day = 3\<rparr>, use_colors = True\<rparr>"

section \<open>Properties of \<^verbatim>\<open>get_log_level\<close>\<close>

subsection \<open>A level name is never an integer literal\<close>

lemma lower_char_letter:
  assumes "97 \<le> (of_char (lower_char c) :: nat)" "(of_char (lower_char c) :: nat) \<le> 122"
  shows "65 \<le> (of_char c :: nat) \<and> (of_char c :: nat) \<le> 122"
  using assms unfolding lower_char_def Let_def
  by (auto split: if_splits)

lemma names_chars:
  "l \<in> set level_names \<Longrightarrow> c \<in> set l \<Longrightarrow>
     97 \<le> (of_char c :: nat) \<and> (of_char c :: nat) \<le> 122"
  unfolding level_names_def by auto

lemma letters_no_int:
  assumes "s \<noteq> []"
    and "\<forall>c \<in> set s. 65 \<le> (of_char c :: nat) \<and> (of_char c :: nat) \<le> 122"
  shows "int_of_str s = None"
proof -
  have h: "65 \<le> (of_char (hd s) :: nat) \<and> (of_char (hd s) :: nat) \<le> 122"
    using assms by simp
  have l: "65 \<le> (of_char (last s) :: nat) \<and> (of_char (last s) :: nat) \<le> 122"
    using assms by simp
  have "\<not> is_space (hd s)"
    using h by (auto simp: is_space_def)
  then have front: "dropWhile is_space s = s"
    by (simp add: dropWhile_eq_self_iff)
  have "\<not> is_space (last s)"
    using l by (auto simp: is_space_def)
  then have "dropWhile is_space (rev s) = rev s"
    using assms(1) by (simp add: dropWhile_eq_self_iff hd_rev)
  then have st: "strip s = s"
    using front by (simp add: strip_def)
  have no_sign: "hd s \<noteq> CHR ''-''" "hd s \<noteq> CHR ''+''"
    using h by auto
  have "digit_val (hd s) = None"
    using h by (simp add: digit_val_def)
  then have "parse_digits s = None"
    using assms(1) by (cases s) (auto simp: parse_digits_def)
  then show ?thesis
    using st no_sign by (simp add: int_of_str_def)
qed

lemma name_no_int:
  assumes "lower s \<in> set level_names"
  shows "int_of_str s = None"
proof (rule letters_no_int)
  show "s \<noteq> []"
    using assms by (auto simp: level_names_def lower_def)
  show "\<forall>c \<in> set s. 65 \<le> (of_char c :: nat) \<and> (of_char c :: nat) \<le> 122"
  proof
    fix c
    assume "c \<in> set s"
    then have "lower_char c \<in> set (lower s)"
      by (simp add: lower_def)
    from names_chars [OF assms this]
    show "65 \<le> (of_char c :: nat) \<and> (of_char c :: nat) \<le> 122"
      using lower_char_letter by blast
  qed
qed

lemma after_try_name:
  "lower s \<in> set level_names \<Longrightarrow> after_try (PStr s) = Inr (PStr s)"
  by (simp add: after_try_def name_no_int)

subsection \<open>A decimal numeral is an integer literal\<close>

text \<open>
  \<^verbatim>\<open>int\<close> reads back what \<open>dec\<close> writes, as long as the numeral has no more than
  \<open>max_str_digits\<close> digits.
\<close>

lemma digit_char: "v < 10 \<Longrightarrow> digit_val (char_of (48 + v)) = Some v"
  by (simp add: digit_val_def)

lemma is_digit_props:
  assumes "is_digit c"
  shows "c \<noteq> CHR ''_''" "c \<noteq> CHR ''-''" "c \<noteq> CHR ''+''" "\<not> is_space c"
  using assms by (auto simp: is_digit_def digit_val_def is_space_def Let_def split: if_splits)

lemma digits_acc_plain:
  "\<forall>c \<in> set ds. is_digit c \<Longrightarrow>
     digits_acc acc cnt ds = Some (digits_value acc ds, cnt + length ds)"
proof (induction acc cnt ds rule: digits_acc.induct)
  case (1 acc cnt)
  then show ?case by (simp add: digits_value_def)
next
  case (2 acc cnt c)
  then show ?case by (auto simp: digits_value_def is_digit_def)
next
  case (3 acc cnt c d ds)
  from "3.prems" have c: "is_digit c" and rest: "\<forall>x \<in> set (d # ds). is_digit x"
    by simp_all
  from c obtain v where v: "digit_val c = Some v"
    by (auto simp: is_digit_def)
  have "digits_acc acc cnt (c # d # ds) = digits_acc (10 * acc + v) (Suc cnt) (d # ds)"
    using is_digit_props(1) [OF c] v by simp
  also have "\<dots> = Some (digits_value (10 * acc + v) (d # ds), Suc cnt + length (d # ds))"
    using "3.IH"(2) [OF is_digit_props(1) [OF c] v rest] .
  finally show ?case
    using v by (simp add: digits_value_def)
qed

lemma dec_digits: "\<forall>c \<in> set (dec n). is_digit c"
proof (induction n rule: dec.induct)
  case (1 n)
  show ?case
  proof (cases "n < 10")
    case True
    then show ?thesis
      by (subst dec.simps) (simp add: is_digit_def digit_char)
  next
    case False
    have "n mod 10 < 10" by simp
    then have "is_digit (char_of (48 + n mod 10))"
      by (simp only: is_digit_def digit_char) simp
    then show ?thesis
      using 1 False by (subst dec.simps) simp
  qed
qed

lemma dec_value: "digits_value 0 (dec n) = n"
proof (induction n rule: dec.induct)
  case (1 n)
  show ?case
  proof (cases "n < 10")
    case True
    then show ?thesis
      by (subst dec.simps) (simp add: digits_value_def digit_char)
  next
    case False
    have m: "digit_val (char_of (48 + n mod 10)) = Some (n mod 10)"
      by (rule digit_char) simp
    have "digits_value 0 (dec n)
        = 10 * digits_value 0 (dec (n div 10)) + n mod 10"
      using False m by (subst dec.simps) (simp add: digits_value_def)
    then show ?thesis
      using 1 False by simp
  qed
qed

lemma dec_nonempty: "dec n \<noteq> []"
  by (subst dec.simps) simp

lemma parse_digits_dec: "parse_digits (dec n) = Some (n, length (dec n))"
proof -
  obtain c cs where cs: "dec n = c # cs"
    using dec_nonempty by (cases "dec n") auto
  have all: "\<forall>x \<in> set (c # cs). is_digit x"
    using dec_digits [of n] by (simp add: cs)
  then obtain v where v: "digit_val c = Some v"
    by (auto simp: is_digit_def)
  have "parse_digits (dec n) = digits_acc v 1 cs"
    by (simp add: parse_digits_def cs v)
  also have "\<dots> = Some (digits_value v cs, 1 + length cs)"
    using all by (intro digits_acc_plain) simp
  also have "digits_value v cs = digits_value 0 (c # cs)"
    using v by (simp add: digits_value_def)
  finally show ?thesis
    by (simp add: cs [symmetric] dec_value) (simp add: cs)
qed

lemma strip_digits:
  assumes "s \<noteq> []" "\<forall>c \<in> set s. is_digit c"
  shows "strip s = s"
proof -
  have "\<not> is_space (hd s)" "\<not> is_space (last s)"
    using assms by (simp_all add: is_digit_props)
  then have "dropWhile is_space s = s" "dropWhile is_space (rev s) = rev s"
    using assms(1) by (simp_all add: dropWhile_eq_self_iff hd_rev)
  then show ?thesis
    by (simp add: strip_def)
qed

lemma int_of_str_dec:
  assumes "length (dec n) \<le> max_str_digits"
  shows "int_of_str (dec n) = Some (int n)"
proof -
  have st: "strip (dec n) = dec n"
    by (rule strip_digits) (simp_all add: dec_nonempty dec_digits)
  have "is_digit (hd (dec n))"
    using dec_digits [of n] dec_nonempty [of n] by simp
  then have "hd (dec n) \<noteq> CHR ''-''" "hd (dec n) \<noteq> CHR ''+''"
    by (simp_all add: is_digit_props)
  then show ?thesis
    using assms by (simp add: int_of_str_def st parse_digits_dec)
qed

lemma get_log_level_dec:
  "length (dec n) \<le> max_str_digits \<Longrightarrow> get_log_level (PStr (dec n)) = Inr (int n)"
  by (simp add: get_log_level_def after_try_def dispatch_def int_of_str_dec)

subsection \<open>The level names\<close>

text \<open>
  C1. A string whose lower-cased form is one of the seven level names is mapped to the
  rank of that name: spam 5, debug 10, info 20, warning 30, success 35, error 40,
  critical 50, whatever the letter case of the input.
\<close>

theorem get_log_level_names:
  assumes "(l, r) \<in> set [(''spam'', 5), (''debug'', 10), (''info'', 20), (''warning'', 30),
                          (''success'', 35), (''error'', 40), (''critical'', 50)]"
    and "lower s = l"
  shows "get_log_level (PStr s) = Inr r"
proof -
  have mem: "lower s \<in> set level_names"
    using assms by (auto simp: level_names_def)
  then have "get_log_level (PStr s) = name_rank (lower s)"
    by (simp add: get_log_level_def after_try_name dispatch_def)
  also have "name_rank (lower s) = Inr r"
    using assms by (auto simp: name_rank_def)
  finally show ?thesis .
qed

theorem get_log_level_names_witness:
  "get_log_level (PStr ''SPAM'') = Inr 5 \<and> get_log_level (PStr ''Debug'') = Inr 10
   \<and> get_log_level (PStr ''info'') = Inr 20 \<and> get_log_level (PStr ''WaRnInG'') = Inr 30
   \<and> get_log_level (PStr ''SUCCESS'') = Inr 35 \<and> get_log_level (PStr ''eRROR'') = Inr 40
   \<and> get_log_level (PStr ''CRITICAL'') = Inr 50"
proof -
  have low: "lower ''SPAM'' = ''spam''" "lower ''Debug'' = ''debug''" "lower ''info'' = ''info''"
    "lower ''WaRnInG'' = ''warning''" "lower ''SUCCESS'' = ''success''"
    "lower ''eRROR'' = ''error''" "lower ''CRITICAL'' = ''critical''"
    by code_simp+
  show ?thesis
    using get_log_level_names [of "''spam''" 5 "''SPAM''"]
      get_log_level_names [of "''debug''" 10 "''Debug''"]
      get_log_level_names [of "''info''" 20 "''info''"]
      get_log_level_names [of "''warning''" 30 "''WaRnInG''"]
      get_log_level_names [of "''success''" 35 "''SUCCESS''"]
      get_log_level_names [of "''error''" 40 "''eRROR''"]
      get_log_level_names [of "''critical''" 50 "''CRITICAL''"]
    by (simp add: low)
qed

subsection \<open>Integers and integer literals\<close>

text \<open>
  C2. The numeric parse comes first: a string that \<^verbatim>\<open>int\<close> accepts is rebound to its
  integer in the \<^verbatim>\<open>try\<close> block and returned as it is; the name table is not consulted
  and no error is raised.
\<close>

theorem get_log_level_numeric_string:
  assumes "int_of_str s = Some n"
  shows "after_try (PStr s) = Inr (PInt n) \<and> get_log_level (PStr s) = Inr n"
  using assms by (simp add: get_log_level_def after_try_def dispatch_def)

theorem get_log_level_numeric_string_witness:
  "int_of_str ''17'' = Some 17 \<and> after_try (PStr ''17'') = Inr (PInt 17)
   \<and> get_log_level (PStr ''17'') = Inr 17"
proof -
  have p: "int_of_str ''17'' = Some 17"
    by code_simp
  show ?thesis
    using p get_log_level_numeric_string [OF p] by simp
qed

text \<open>
  C9. An integer is returned as it is. There is no check against the known ranks:
  negative numbers, zero and numbers that are no rank are returned like any other.
\<close>

theorem get_log_level_int:
  "get_log_level (PInt n) = Inr n"
  by (simp add: get_log_level_def after_try_def dispatch_def)

subsection \<open>The two fatal paths\<close>

text \<open>
  C3. A string that \<^verbatim>\<open>int\<close> rejects and whose lower-cased form is none of the seven
  names raises \<^verbatim>\<open>SystemExit\<close>; the message quotes the string as it was given. No value
  is returned.
\<close>

theorem get_log_level_invalid_string:
  assumes "int_of_str s = None"
    and "lower s \<notin> set level_names"
  shows "get_log_level (PStr s) = Inl (SystemExit (invalid_string_msg s))"
  using assms by (simp add: get_log_level_def after_try_def dispatch_def)

theorem get_log_level_invalid_string_witness:
  "int_of_str ''verbose'' = None \<and> lower ''verbose'' \<notin> set level_names
   \<and> get_log_level (PStr ''verbose'')
       = Inl (SystemExit ''ERROR: 'verbose' is not a valid log level string.'')"
proof -
  have p: "int_of_str ''verbose'' = None"
    by code_simp
  have q: "lower ''verbose'' \<notin> set level_names"
    by code_simp
  have m: "invalid_string_msg ''verbose'' = ''ERROR: 'verbose' is not a valid log level string.''"
    by (simp add: invalid_string_msg_def)
  show ?thesis
    using p q get_log_level_invalid_string [OF p q] by (simp add: m)
qed

text \<open>
  C4. Amended. An input that is no instance of \<^verbatim>\<open>int\<close>, no string, and that \<^verbatim>\<open>int\<close>
  refuses with \<^verbatim>\<open>TypeError\<close> or \<^verbatim>\<open>ValueError\<close> (\<^verbatim>\<open>None\<close>, a NaN, a complex number, a
  container, bytes that are no integer literal, an object with no integer conversion)
  raises \<^verbatim>\<open>SystemExit\<close> with the generic message. A float is not such an input in
  general: \<^verbatim>\<open>int\<close> truncates a finite float, and the function returns the truncated
  value.
\<close>

theorem get_log_level_generic_error:
  assumes "py_int v = TypeError \<or> py_int v = ValueError"
    and "as_int v = None"
    and "as_str v = None"
  shows "get_log_level v = Inl (SystemExit generic_msg)"
proof -
  have "after_try v = Inr v"
    using assms(1) by (auto simp: after_try_def)
  then show ?thesis
    using assms(2,3) by (simp add: get_log_level_def dispatch_def)
qed

theorem get_log_level_generic_error_witness:
  "get_log_level PNone
     = Inl (SystemExit ''ERROR: --log-level should be an integer or valid log level string.'')
   \<and> get_log_level (PFloat NaN)
     = Inl (SystemExit ''ERROR: --log-level should be an integer or valid log level string.'')
   \<and> get_log_level (PComplex (Finite 1) (Finite 2))
     = Inl (SystemExit ''ERROR: --log-level should be an integer or valid log level string.'')
   \<and> get_log_level (PList [PInt 1])
     = Inl (SystemExit ''ERROR: --log-level should be an integer or valid log level string.'')
   \<and> get_log_level (PBytes ''info'')
     = Inl (SystemExit ''ERROR: --log-level should be an integer or valid log level string.'')
   \<and> get_log_level (PObject TypeError)
     = Inl (SystemExit ''ERROR: --log-level should be an integer or valid log level string.'')"
proof -
  have b: "py_int (PBytes ''info'') = ValueError"
    by code_simp
  have bytes: "get_log_level (PBytes ''info'') = Inl (SystemExit generic_msg)"
    using get_log_level_generic_error [of "PBytes ''info''", OF disjI2 [OF b]] by simp
  show ?thesis
    using get_log_level_generic_error [of PNone]
      get_log_level_generic_error [of "PFloat NaN"]
      get_log_level_generic_error [of "PComplex (Finite 1) (Finite 2)"]
      get_log_level_generic_error [of "PList [PInt 1]"]
      get_log_level_generic_error [of "PObject TypeError"]
      bytes
    by (simp add: generic_msg_def)
qed

text \<open>
  The claim as it was stated gives a floating value as its example of an input that
  takes the generic error path. \<^verbatim>\<open>get_log_level(2.5)\<close> returns 2.
\<close>

theorem get_log_level_float_counterexample:
  "get_log_level (PFloat (Finite (5 / 2))) = Inr 2"
  by code_simp

lemma get_log_level_float:
  "get_log_level (PFloat (Finite q)) = Inr (trunc q)"
  "get_log_level (PFloat (Infinity b)) = Inl OverflowError"
  by (simp_all add: get_log_level_def after_try_def dispatch_def)

text \<open>
  The three conditions are needed. An instance of a subclass of \<^verbatim>\<open>int\<close> whose
  \<^verbatim>\<open>__int__\<close> raises \<^verbatim>\<open>TypeError\<close> is refused by \<^verbatim>\<open>int\<close> and is no string, and the
  \<^verbatim>\<open>isinstance(levelInput, int)\<close> branch returns it. Bytes and objects that \<^verbatim>\<open>int\<close>
  accepts are returned as integers. An exception of \<^verbatim>\<open>int\<close> other than \<^verbatim>\<open>TypeError\<close>
  and \<^verbatim>\<open>ValueError\<close> leaves the function as it is.
\<close>

lemma get_log_level_int_subclass:
  "get_log_level (PIntSub n TypeError) = Inr n"
  "get_log_level (PIntSub n ValueError) = Inr n"
  "get_log_level (PIntSub n (Converted m)) = Inr m"
  by (simp_all add: get_log_level_def after_try_def dispatch_def)

lemma get_log_level_convertible:
  "int_of_bytes b = Some n \<Longrightarrow> get_log_level (PBytes b) = Inr n"
  "get_log_level (PObject (Converted n)) = Inr n"
  by (simp_all add: get_log_level_def after_try_def dispatch_def)

lemma get_log_level_bytes_17:
  "get_log_level (PBytes ''17'') = Inr 17"
  by code_simp

lemma get_log_level_uncaught:
  "py_int v = Overflow \<Longrightarrow> get_log_level v = Inl OverflowError"
  "py_int v = OtherError name \<Longrightarrow> get_log_level v = Inl (OtherException name)"
  by (simp_all add: get_log_level_def after_try_def)

section \<open>Properties of \<^verbatim>\<open>addLoggingLevel\<close>\<close>

lemma addLoggingLevel_frame:
  "root_handlers (snd (addLoggingLevel n k m st)) = root_handlers st"
  "root_level (snd (addLoggingLevel n k m st)) = root_level st"
  "files (snd (addLoggingLevel n k m st)) = files st"
  by (simp_all add: addLoggingLevel_def Let_def setattr_module_def setattr_class_def addLevelName_def)

lemma addLoggingLevel_fail_unchanged:
  "fst (addLoggingLevel n k m st) = Inl e \<Longrightarrow> snd (addLoggingLevel n k m st) = st"
  by (auto simp: addLoggingLevel_def Let_def split: if_splits)

lemma addLoggingLevel_ok_iff:
  "fst (addLoggingLevel n k m st) = Inr () \<longleftrightarrow>
     \<not> hasattr_module st n \<and> \<not> hasattr_module st (method_name n m) \<and> \<not> hasattr_class st (method_name n m)"
  by (auto simp: addLoggingLevel_def Let_def split: if_splits)

lemma addLoggingLevel_ok_module:
  assumes "fst (addLoggingLevel n k m st) = Inr ()"
  shows "hasattr_module (snd (addLoggingLevel n k m st)) x \<longleftrightarrow> hasattr_module st x \<or> x = n \<or> x = method_name n m"
  using assms
  by (auto simp: addLoggingLevel_def Let_def hasattr_module_def setattr_module_def setattr_class_def addLevelName_def split: if_splits)

lemma remove_first_subset:
  "set (remove_first P xs) \<subseteq> set xs"
  by (induction xs) auto

lemma remove_first_filter:
  "(\<And>x. Q x \<Longrightarrow> \<not> P x) \<Longrightarrow> filter Q (remove_first P xs) = filter Q xs"
  by (induction xs) auto

lemma file_not_std: "is_file_handler h \<Longrightarrow> \<not> is_std_stream_handler h"
  by (auto simp: is_file_handler_def is_std_stream_handler_def split: stream.splits)

text \<open>
  C10. The three checks come before the first assignment: when \<^verbatim>\<open>addLoggingLevel\<close>
  raises, the level tables, the module attributes, the class attributes and the rest of
  the state are what they were before the call.
\<close>

theorem addLoggingLevel_atomic:
  assumes "fst (addLoggingLevel levelName levelNum methodName st) = Inl err"
  shows "snd (addLoggingLevel levelName levelNum methodName st) = st"
  using assms by (rule addLoggingLevel_fail_unchanged)

theorem addLoggingLevel_atomic_witness:
  "fst (addLoggingLevel ''DEBUG'' 10 None fresh_logging)
     = Inl (AttributeError ''DEBUG already defined in logging module'')
   \<and> snd (addLoggingLevel ''DEBUG'' 10 None fresh_logging) = fresh_logging"
proof -
  have f: "fst (addLoggingLevel ''DEBUG'' 10 None fresh_logging)
     = Inl (AttributeError ''DEBUG already defined in logging module'')"
    by code_simp
  show ?thesis using f addLoggingLevel_atomic [OF f] by simp
qed

text \<open>
  C8. Amended. \<^verbatim>\<open>addLoggingLevel\<close> checks names, not ranks: when the level name and
  the method name are free the call succeeds whatever the rank is, also a rank that has
  a name already. The rank is then shown under the new name, and every other name
  keeps its rank, so two names can share one rank.
\<close>

theorem addLoggingLevel_ignores_rank:
  assumes "\<not> hasattr_module st levelName"
    and "\<not> hasattr_module st (method_name levelName methodName)"
    and "\<not> hasattr_class st (method_name levelName methodName)"
  shows "fst (addLoggingLevel levelName levelNum methodName st) = Inr ()
    \<and> levelToName (snd (addLoggingLevel levelName levelNum methodName st)) levelNum = Some levelName
    \<and> nameToLevel (snd (addLoggingLevel levelName levelNum methodName st)) levelName = Some levelNum
    \<and> (\<forall>other. other \<noteq> levelName \<longrightarrow>
          nameToLevel (snd (addLoggingLevel levelName levelNum methodName st)) other
            = nameToLevel st other)"
  using assms
  by (simp add: addLoggingLevel_def Let_def setattr_module_def setattr_class_def addLevelName_def)

theorem addLoggingLevel_ignores_rank_witness:
  "levelToName fresh_logging 10 = Some ''DEBUG''
   \<and> fst (addLoggingLevel ''TRACE'' 10 None fresh_logging) = Inr ()
   \<and> levelToName (snd (addLoggingLevel ''TRACE'' 10 None fresh_logging)) 10 = Some ''TRACE''
   \<and> nameToLevel (snd (addLoggingLevel ''TRACE'' 10 None fresh_logging)) ''TRACE'' = Some 10
   \<and> nameToLevel (snd (addLoggingLevel ''TRACE'' 10 None fresh_logging)) ''DEBUG'' = Some 10"
proof -
  have h: "\<not> hasattr_module fresh_logging ''TRACE''"
    "\<not> hasattr_module fresh_logging (method_name ''TRACE'' None)"
    "\<not> hasattr_class fresh_logging (method_name ''TRACE'' None)"
    by code_simp+
  have d: "levelToName fresh_logging 10 = Some ''DEBUG''"
    "nameToLevel fresh_logging ''DEBUG'' = Some 10"
    by code_simp+
  show ?thesis
    using addLoggingLevel_ignores_rank [OF h, of 10] d by simp
qed

text \<open>
  The claim as it was stated says that a rank in use is rejected. Rank 10 belongs to
  \<^verbatim>\<open>DEBUG\<close>, and \<^verbatim>\<open>addLoggingLevel("TRACE", 10)\<close> succeeds.
\<close>

theorem addLoggingLevel_duplicate_rank_counterexample:
  "levelToName fresh_logging 10 = Some ''DEBUG''
   \<and> fst (addLoggingLevel ''TRACE'' 10 None fresh_logging) = Inr ()"
  by code_simp

text \<open>
  The same on the path that the program takes: when another name holds rank 5
  (\<^verbatim>\<open>logging.addLevelName(5, "TRACE")\<close>), \<^verbatim>\<open>logging_setup\<close> still registers
  \<^verbatim>\<open>SPAM\<close> with rank 5 and runs to its end; afterwards both names have rank 5.
\<close>

lemma logging_setup_rank_in_use:
  "fst (logging_setup test_env 20 True False [] (addLevelName 5 ''TRACE'' fresh_logging)) = Inr ()"
  "levelToName (snd (logging_setup test_env 20 True False []
      (addLevelName 5 ''TRACE'' fresh_logging))) 5 = Some ''SPAM''"
  "nameToLevel (snd (logging_setup test_env 20 True False []
      (addLevelName 5 ''TRACE'' fresh_logging))) ''TRACE'' = Some 5"
  "nameToLevel (snd (logging_setup test_env 20 True False []
      (addLevelName 5 ''TRACE'' fresh_logging))) ''SPAM'' = Some 5"
  by code_simp+

section \<open>Properties of \<^verbatim>\<open>logging_setup\<close>\<close>

lemma logging_setup_cases:
  "logging_setup e L c f p st =
     (let st2 = before_levels e f st;
          r3 = addLoggingLevel ''SPAM'' 5 None st2;
          r4 = addLoggingLevel ''SUCCESS'' 35 None (snd r3) in
      case fst r3 of Inl err \<Rightarrow> (Inl err, snd r3)
      | Inr u \<Rightarrow> (case fst r4 of Inl err \<Rightarrow> (Inl err, snd r4)
          | Inr u \<Rightarrow> (Inr (), coloredlogs_install (use_colors e) L log_format setup_field_styles (setLevel L (snd r4)))))"
  by (cases f) (auto simp: logging_setup_def before_levels_def Let_def setLevel_def split: prod.splits sum.splits)

lemma logging_setup_handlers:
  "root_handlers (snd (logging_setup e L c f p st)) =
     (if fst (logging_setup e L c f p st) = Inr ()
      then remove_first is_std_stream_handler (root_handlers (before_levels e f st))
             @ [\<lparr>h_stream = Stderr,
                  h_formatter = Some (if use_colors e then ColoredFormatter log_format setup_field_styles
                                      else Formatter log_format),
                  h_level = L\<rparr>]
      else root_handlers (before_levels e f st))"
  by (simp add: logging_setup_cases Let_def addLoggingLevel_frame coloredlogs_install_def setLevel_def
      split: sum.splits)

lemma logging_setup_files:
  "files (snd (logging_setup e L c f p st)) = files (before_levels e f st)"
  by (simp add: logging_setup_cases Let_def addLoggingLevel_frame coloredlogs_install_def setLevel_def
      split: sum.splits)

lemma logging_setup_level:
  "fst (logging_setup e L c f p st) = Inr () \<Longrightarrow> root_level (snd (logging_setup e L c f p st)) = L"
  by (simp add: logging_setup_cases Let_def addLoggingLevel_frame coloredlogs_install_def setLevel_def
      split: sum.splits)

lemma before_levels_module [simp]:
  "hasattr_module (before_levels e f st) x = hasattr_module st x"
  "hasattr_class (before_levels e f st) x = hasattr_class st x"
  by (simp_all add: before_levels_def hasattr_module_def hasattr_class_def addHandler_def open_file_def)

lemma logging_setup_spam_fail:
  assumes "hasattr_module st ''SPAM''"
  shows "fst (logging_setup e L c f p st) = Inl (AttributeError ''SPAM already defined in logging module'')"
  using assms by (simp add: logging_setup_cases Let_def addLoggingLevel_def)

lemma logging_setup_ok_spam:
  assumes "fst (logging_setup e L c f p st) = Inr ()"
  shows "hasattr_module (snd (logging_setup e L c f p st)) ''SPAM''"
proof -
  let ?r3 = "addLoggingLevel ''SPAM'' 5 None (before_levels e f st)"
  let ?r4 = "addLoggingLevel ''SUCCESS'' 35 None (snd ?r3)"
  from assms have ok3: "fst ?r3 = Inr ()" and ok4: "fst ?r4 = Inr ()"
    by (auto simp: logging_setup_cases Let_def split: sum.splits)
  have "hasattr_module (snd ?r3) ''SPAM''"
    using ok3 by (simp add: addLoggingLevel_ok_module)
  then have "hasattr_module (snd ?r4) ''SPAM''"
    using ok4 by (simp add: addLoggingLevel_ok_module)
  moreover have "snd (logging_setup e L c f p st)
      = coloredlogs_install (use_colors e) L log_format setup_field_styles (setLevel L (snd ?r4))"
    using ok3 ok4 by (simp add: logging_setup_cases Let_def)
  ultimately show ?thesis
    by (simp add: hasattr_module_def coloredlogs_install_def setLevel_def Let_def)
qed

lemma before_levels_handlers:
  "root_handlers (before_levels e f st) =
     (if f then root_handlers st @ [\<lparr>h_stream = FileStream (log_file_name (now e)),
                                      h_formatter = Some (Formatter log_format), h_level = 0\<rparr>]
      else root_handlers st)"
  by (simp add: before_levels_def addHandler_def open_file_def setFormatter_def FileHandler_def)

lemma before_levels_files:
  "files (before_levels e f st) = (if f then insert (log_file_name (now e)) (files st) else files st)"
  by (simp add: before_levels_def addHandler_def open_file_def)

text \<open>
  C5. A level name that was registered cannot be registered again: the second call
  raises \<^verbatim>\<open>AttributeError\<close>, whatever its rank and method name. The same error is raised
  when the level name is an attribute of the module, when the method name is one, and
  when the method name is an attribute of the logger class. Nothing catches the error:
  a second run of \<^verbatim>\<open>logging_setup\<close> ends with the \<^verbatim>\<open>AttributeError\<close> for \<^verbatim>\<open>SPAM\<close>.
\<close>

theorem addLoggingLevel_collision:
  "(fst (addLoggingLevel levelName levelNum methodName st) = Inr () \<longrightarrow>
      fst (addLoggingLevel levelName levelNum' methodName'
             (snd (addLoggingLevel levelName levelNum methodName st)))
        = Inl (AttributeError (levelName @ '' already defined in logging module'')))
   \<and> (hasattr_module st levelName \<longrightarrow>
        fst (addLoggingLevel levelName levelNum methodName st)
          = Inl (AttributeError (levelName @ '' already defined in logging module'')))
   \<and> (\<not> hasattr_module st levelName \<and> hasattr_module st (method_name levelName methodName) \<longrightarrow>
        fst (addLoggingLevel levelName levelNum methodName st)
          = Inl (AttributeError
                   (method_name levelName methodName @ '' already defined in logging module'')))
   \<and> (\<not> hasattr_module st levelName \<and> \<not> hasattr_module st (method_name levelName methodName)
        \<and> hasattr_class st (method_name levelName methodName) \<longrightarrow>
        fst (addLoggingLevel levelName levelNum methodName st)
          = Inl (AttributeError
                   (method_name levelName methodName @ '' already defined in logger class'')))
   \<and> (fst (logging_setup e logLevel logToConsole logToFile logPath st) = Inr () \<longrightarrow>
        fst (logging_setup e' logLevel' logToConsole' logToFile' logPath'
               (snd (logging_setup e logLevel logToConsole logToFile logPath st)))
          = Inl (AttributeError ''SPAM already defined in logging module''))"
proof -
  have again: "fst (addLoggingLevel levelName levelNum' methodName'
             (snd (addLoggingLevel levelName levelNum methodName st)))
        = Inl (AttributeError (levelName @ '' already defined in logging module''))"
    if "fst (addLoggingLevel levelName levelNum methodName st) = Inr ()"
  proof -
    have "hasattr_module (snd (addLoggingLevel levelName levelNum methodName st)) levelName"
      using that by (simp add: addLoggingLevel_ok_module)
    then show ?thesis
      by (simp add: addLoggingLevel_def)
  qed
  have twice: "fst (logging_setup e' logLevel' logToConsole' logToFile' logPath'
               (snd (logging_setup e logLevel logToConsole logToFile logPath st)))
          = Inl (AttributeError ''SPAM already defined in logging module'')"
    if "fst (logging_setup e logLevel logToConsole logToFile logPath st) = Inr ()"
    using that by (intro logging_setup_spam_fail logging_setup_ok_spam)
  show ?thesis
    using again twice by (simp add: addLoggingLevel_def Let_def)
qed

theorem addLoggingLevel_collision_witness:
  "fst (addLoggingLevel ''TRACE'' 5 None fresh_logging) = Inr ()
   \<and> fst (addLoggingLevel ''TRACE'' 5 None (snd (addLoggingLevel ''TRACE'' 5 None fresh_logging)))
       = Inl (AttributeError ''TRACE already defined in logging module'')
   \<and> fst (addLoggingLevel ''DEBUG'' 10 None fresh_logging)
       = Inl (AttributeError ''DEBUG already defined in logging module'')
   \<and> fst (addLoggingLevel ''Info'' 20 None fresh_logging)
       = Inl (AttributeError ''info already defined in logging module'')
   \<and> fst (addLoggingLevel ''TRACE'' 5 (Some ''setLevel'') fresh_logging)
       = Inl (AttributeError ''setLevel already defined in logger class'')
   \<and> fst (logging_setup test_env 20 True False [] fresh_logging) = Inr ()
   \<and> fst (logging_setup test_env 20 True False []
            (snd (logging_setup test_env 20 True False [] fresh_logging)))
       = Inl (AttributeError ''SPAM already defined in logging module'')"
proof -
  have a: "fst (addLoggingLevel ''TRACE'' 5 None fresh_logging) = Inr ()"
    by code_simp
  have b: "hasattr_module fresh_logging ''DEBUG''"
    by code_simp
  have c: "\<not> hasattr_module fresh_logging ''Info'' \<and> hasattr_module fresh_logging (method_name ''Info'' None)"
    by code_simp
  have c': "method_name ''Info'' None = ''info''"
    by code_simp
  have d: "\<not> hasattr_module fresh_logging ''TRACE''
           \<and> \<not> hasattr_module fresh_logging (method_name ''TRACE'' (Some ''setLevel''))
           \<and> hasattr_class fresh_logging (method_name ''TRACE'' (Some ''setLevel''))"
    by code_simp
  have d': "method_name ''TRACE'' (Some ''setLevel'') = ''setLevel''"
    by code_simp
  have s: "fst (logging_setup test_env 20 True False [] fresh_logging) = Inr ()"
    by code_simp
  have a2: "fst (addLoggingLevel ''TRACE'' 5 None (snd (addLoggingLevel ''TRACE'' 5 None fresh_logging)))
       = Inl (AttributeError ''TRACE already defined in logging module'')"
    using addLoggingLevel_collision [of "''TRACE''" 5 None fresh_logging 5 None] a by simp
  have b2: "fst (addLoggingLevel ''DEBUG'' 10 None fresh_logging)
       = Inl (AttributeError ''DEBUG already defined in logging module'')"
    using addLoggingLevel_collision [of "''DEBUG''" 10 None fresh_logging] b by simp
  have c2: "fst (addLoggingLevel ''Info'' 20 None fresh_logging)
       = Inl (AttributeError ''info already defined in logging module'')"
    using addLoggingLevel_collision [of "''Info''" 20 None fresh_logging] c c' by simp
  have d2: "fst (addLoggingLevel ''TRACE'' 5 (Some ''setLevel'') fresh_logging)
       = Inl (AttributeError ''setLevel already defined in logger class'')"
    using addLoggingLevel_collision [of "''TRACE''" 5 "Some ''setLevel''" fresh_logging] d d' by simp
  have s2: "fst (logging_setup test_env 20 True False []
            (snd (logging_setup test_env 20 True False [] fresh_logging)))
       = Inl (AttributeError ''SPAM already defined in logging module'')"
    using addLoggingLevel_collision [of _ _ _ fresh_logging _ _ test_env 20 True False "[]" test_env 20 True False "[]"] s
    by simp
  show ?thesis
    using a a2 b2 c2 d2 s s2 by simp
qed

text \<open>
  C6. When \<^verbatim>\<open>logging_setup\<close> has run to its end, the root logger has a handler on the
  standard error stream that carries the format string; every handler of the root
  logger that was not attached before the call carries it; and the level of the root
  logger is \<^verbatim>\<open>logLevel\<close>.
\<close>

theorem logging_setup_console_format_level:
  assumes "fst (logging_setup e logLevel logToConsole logToFile logPath st) = Inr ()"
  shows "(\<exists>h \<in> set (root_handlers (snd (logging_setup e logLevel logToConsole logToFile logPath st))).
            h_stream h = Stderr
            \<and> carries ''%(asctime)s :: %(levelname)-8s :: %(funcName)-17s - %(message)s'' h)
    \<and> (\<forall>h \<in> set (root_handlers (snd (logging_setup e logLevel logToConsole logToFile logPath st))).
            h \<in> set (root_handlers st)
            \<or> carries ''%(asctime)s :: %(levelname)-8s :: %(funcName)-17s - %(message)s'' h)
    \<and> root_level (snd (logging_setup e logLevel logToConsole logToFile logPath st)) = logLevel"
proof -
  let ?st' = "snd (logging_setup e logLevel logToConsole logToFile logPath st)"
  let ?console = "\<lparr>h_stream = Stderr,
      h_formatter = Some (if use_colors e then ColoredFormatter log_format setup_field_styles
                          else Formatter log_format),
      h_level = logLevel\<rparr>"
  let ?fmt = "''%(asctime)s :: %(levelname)-8s :: %(funcName)-17s - %(message)s''"
  have hs: "root_handlers ?st'
      = remove_first is_std_stream_handler (root_handlers (before_levels e logToFile st)) @ [?console]"
    using assms by (simp add: logging_setup_handlers)
  have con: "h_stream ?console = Stderr \<and> carries ?fmt ?console"
    by (simp add: carries_def log_format_def)
  have "?console \<in> set (root_handlers ?st')"
    by (simp add: hs)
  then have one: "\<exists>h \<in> set (root_handlers ?st'). h_stream h = Stderr \<and> carries ?fmt h"
    using con by blast
  have all: "\<forall>h \<in> set (root_handlers ?st'). h \<in> set (root_handlers st) \<or> carries ?fmt h"
  proof
    fix h
    assume "h \<in> set (root_handlers ?st')"
    then have "h = ?console \<or> h \<in> set (root_handlers (before_levels e logToFile st))"
      using remove_first_subset [of is_std_stream_handler "root_handlers (before_levels e logToFile st)"]
      by (auto simp: hs)
    then show "h \<in> set (root_handlers st) \<or> carries ?fmt h"
      using con by (auto simp: before_levels_handlers carries_def log_format_def split: if_splits)
  qed
  show ?thesis
    using one all logging_setup_level [OF assms] by simp
qed

theorem logging_setup_console_format_level_witness:
  "fst (logging_setup test_env 20 True True [] fresh_logging) = Inr ()
   \<and> root_handlers (snd (logging_setup test_env 20 True True [] fresh_logging))
       = [\<lparr>h_stream = FileStream ''20261103.log'',
            h_formatter = Some (Formatter
              ''%(asctime)s :: %(levelname)-8s :: %(funcName)-17s - %(message)s''),
            h_level = 0\<rparr>,
          \<lparr>h_stream = Stderr,
            h_formatter = Some (ColoredFormatter
              ''%(asctime)s :: %(levelname)-8s :: %(funcName)-17s - %(message)s''
              setup_field_styles),
            h_level = 20\<rparr>]
   \<and> (\<exists>h \<in> set (root_handlers (snd (logging_setup test_env 20 True True [] fresh_logging))).
         h_stream h = Stderr
          \<and> carries ''%(asctime)s :: %(levelname)-8s :: %(funcName)-17s - %(message)s'' h)
   \<and> root_level (snd (logging_setup test_env 20 True True [] fresh_logging)) = 20"
proof -
  have ok: "fst (logging_setup test_env 20 True True [] fresh_logging) = Inr ()"
    by code_simp
  have hs: "root_handlers (snd (logging_setup test_env 20 True True [] fresh_logging))
       = [\<lparr>h_stream = FileStream ''20261103.log'',
            h_formatter = Some (Formatter
              ''%(asctime)s :: %(levelname)-8s :: %(funcName)-17s - %(message)s''),
            h_level = 0\<rparr>,
          \<lparr>h_stream = Stderr,
            h_formatter = Some (ColoredFormatter
              ''%(asctime)s :: %(levelname)-8s :: %(funcName)-17s - %(message)s''
              setup_field_styles),
            h_level = 20\<rparr>]"
    by code_simp
  show ?thesis
    using ok hs logging_setup_console_format_level [OF ok] by simp
qed

text \<open>
  C7. Without \<^verbatim>\<open>logToFile\<close> no file is created and the file handlers of the root logger
  are those it had. With \<^verbatim>\<open>logToFile\<close> the file named after the date is created, and
  one file handler is added, on that file and with a formatter of the shared format
  string. The name is the year, the month and the day in 4, 2 and 2 digits, followed by
  \<^verbatim>\<open>.log\<close>.
\<close>

theorem logging_setup_file_sink:
  "(\<not> logToFile \<longrightarrow>
       files (snd (logging_setup e logLevel logToConsole logToFile logPath st)) = files st
       \<and> filter is_file_handler
            (root_handlers (snd (logging_setup e logLevel logToConsole logToFile logPath st)))
          = filter is_file_handler (root_handlers st))
   \<and> (logToFile \<longrightarrow>
       files (snd (logging_setup e logLevel logToConsole logToFile logPath st))
          = insert (log_file_name (now e)) (files st)
       \<and> filter is_file_handler
            (root_handlers (snd (logging_setup e logLevel logToConsole logToFile logPath st)))
          = filter is_file_handler (root_handlers st)
              @ [\<lparr>h_stream = FileStream (log_file_name (now e)),
                    h_formatter = Some (Formatter
                      ''%(asctime)s :: %(levelname)-8s :: %(funcName)-17s - %(message)s''),
                    h_level = 0\<rparr>])
   \<and> log_file_name (now e)
        = zpad 4 (dec (year (now e))) @ zpad 2 (dec (month (now e))) @ zpad 2 (dec (day (now e)))
            @ ''.log''"
proof -
  let ?st' = "snd (logging_setup e logLevel logToConsole logToFile logPath st)"
  let ?fh = "\<lparr>h_stream = FileStream (log_file_name (now e)),
                h_formatter = Some (Formatter log_format), h_level = 0\<rparr>"
  have keep: "filter is_file_handler (remove_first is_std_stream_handler xs)
      = filter is_file_handler xs" for xs
    by (rule remove_first_filter) (rule file_not_std)
  have fls: "filter is_file_handler (root_handlers ?st')
      = filter is_file_handler (root_handlers (before_levels e logToFile st))"
    by (simp add: logging_setup_handlers keep is_file_handler_def)
  have isf: "is_file_handler ?fh"
    by (simp add: is_file_handler_def)
  have "filter is_file_handler (root_handlers ?st')
      = (if logToFile then filter is_file_handler (root_handlers st) @ [?fh]
         else filter is_file_handler (root_handlers st))"
    using isf by (simp add: fls before_levels_handlers)
  moreover have "files ?st' = (if logToFile then insert (log_file_name (now e)) (files st) else files st)"
    by (simp add: logging_setup_files before_levels_files)
  ultimately show ?thesis
    by (cases logToFile) (simp_all add: log_file_name_def strftime_Ymd_def log_format_def)
qed

theorem logging_setup_file_sink_witness:
  "files (snd (logging_setup test_env 20 True False [] fresh_logging)) = {}
   \<and> filter is_file_handler (root_handlers (snd (logging_setup test_env 20 True False [] fresh_logging))) = []
   \<and> files (snd (logging_setup test_env 20 True True [] fresh_logging)) = {''20261103.log''}
   \<and> filter is_file_handler (root_handlers (snd (logging_setup test_env 20 True True [] fresh_logging)))
       = [\<lparr>h_stream = FileStream ''20261103.log'',
            h_formatter = Some (Formatter
              ''%(asctime)s :: %(levelname)-8s :: %(funcName)-17s - %(message)s''),
            h_level = 0\<rparr>]"
proof -
  have n: "log_file_name (now test_env) = ''20261103.log''"
    by code_simp
  have f: "files fresh_logging = {}" "root_handlers fresh_logging = []"
    by (simp_all add: fresh_logging_def)
  show ?thesis
    using logging_setup_file_sink [of False test_env 20 True "[]" fresh_logging]
      logging_setup_file_sink [of True test_env 20 True "[]" fresh_logging]
    by (simp add: n f)
qed

lemma length_dec:
  "n < 10 \<Longrightarrow> length (dec n) = 1"
  "10 \<le> n \<Longrightarrow> n < 100 \<Longrightarrow> length (dec n) = 2"
  "1000 \<le> n \<Longrightarrow> n < 10000 \<Longrightarrow> length (dec n) = 4"
proof -
  show 1: "length (dec n) = 1" if "n < 10" for n
    using that by (simp add: dec.simps)
  show 2: "length (dec n) = 2" if "10 \<le> n" "n < 100" for n
    using that 1 [of "n div 10"] by (subst dec.simps) simp
  have 3: "length (dec n) = 3" if "100 \<le> n" "n < 1000" for n
    using that 2 [of "n div 10"] by (subst dec.simps) simp
  show "length (dec n) = 4" if "1000 \<le> n" "n < 10000" for n
    using that 3 [of "n div 10"] by (subst dec.simps) simp
qed

lemma log_file_name_length:
  assumes "1000 \<le> year d" "year d < 10000" "1 \<le> month d" "month d \<le> 12" "1 \<le> day d" "day d \<le> 31"
  shows "length (log_file_name d) = 12"
proof -
  have "length (zpad 2 (dec k)) = 2" if "k < 100" for k
    using that length_dec(1) [of k] length_dec(2) [of k]
    by (cases "k < 10") (simp_all add: zpad_def)
  then have "length (zpad 2 (dec (month d))) = 2" "length (zpad 2 (dec (day d))) = 2"
    using assms by simp_all
  moreover have "length (zpad 4 (dec (year d))) = 4"
    using assms length_dec(3) [of "year d"] by (simp add: zpad_def)
  ultimately show ?thesis
    by (simp add: log_file_name_def strftime_Ymd_def)
qed

end
